theory Spec2Isabelle
  imports Complex_Main "HOL-Library.Word"
begin

section \<open>Data model\<close>

text \<open>
  The detector of \<^verbatim>\<open>src/extractor/guidance/mergable_road_detector.cpp\<close> decides whether two
  roads leaving one intersection are the two carriageways of a single road. Node, edge and
  name identifiers are plain indices; bearings, angles and distances are the source's
  \<^verbatim>\<open>double\<close>s, read here as real numbers (every constant the detector compares against,
  and every width it computes from at most 510 lanes, is exactly representable, so the
  comparisons agree on finite values).
\<close>

type_synonym NodeID = nat
type_synonym EdgeID = nat
type_synonym NameID = nat
type_synonym Coordinate = "int \<times> int"

text \<open>
  Modelled from the spec: the road classification type is declared outside this file; the
  spec lists a lane count and a link flag among its contents, and the detector reads the
  lane count as an unsigned 8-bit number and compares classifications for equality.
\<close>

record RoadClassification =
  number_of_lanes :: "8 word"
  link_class :: bool
  road_priority_class :: nat

definition GetNumberOfLanes :: "RoadClassification \<Rightarrow> 8 word" where
  "GetNumberOfLanes c = number_of_lanes c"

text \<open>The edge attributes the detector reads (\<^verbatim>\<open>util::NodeBasedEdgeData\<close>).\<close>

record NodeBasedEdgeData =
  reversed :: bool
  roundabout :: bool
  travel_mode :: nat
  name_id :: NameID
  road_classification :: RoadClassification

text \<open>
  A candidate road: the edge and the bearing at which it leaves the intersection
  (\<^verbatim>\<open>MergableRoadData\<close>, which is the intersection's shape data). A road of an intersection
  view carries its turn angle in addition.
\<close>

record MergableRoadData =
  eid :: EdgeID
  bearing :: real

record IntersectionViewData = MergableRoadData +
  angle :: real

type_synonym IntersectionView = "IntersectionViewData list"

text \<open>
  Modelled from the spec: the graph query surface (edge attributes, edge target, adjacent
  edges of a node, out-degree). The graph class is not part of this file; the out-degree
  of a node is the number of its adjacent edges.
\<close>

record NodeBasedDynamicGraph =
  edge_data :: "EdgeID \<Rightarrow> NodeBasedEdgeData"
  edge_target :: "EdgeID \<Rightarrow> NodeID"
  adjacent_edges :: "NodeID \<Rightarrow> EdgeID list"

definition GetEdgeData :: "NodeBasedDynamicGraph \<Rightarrow> EdgeID \<Rightarrow> NodeBasedEdgeData" where
  "GetEdgeData g e = edge_data g e"

definition GetTarget :: "NodeBasedDynamicGraph \<Rightarrow> EdgeID \<Rightarrow> NodeID" where
  "GetTarget g e = edge_target g e"

definition GetAdjacentEdgeRange :: "NodeBasedDynamicGraph \<Rightarrow> NodeID \<Rightarrow> EdgeID list" where
  "GetAdjacentEdgeRange g n = adjacent_edges g n"

definition GetOutDegree :: "NodeBasedDynamicGraph \<Rightarrow> NodeID \<Rightarrow> nat" where
  "GetOutDegree g n = length (adjacent_edges g n)"

text \<open>The result of skipping pass-through nodes: a node and the edge leaving it.\<close>

record IntersectionGenerationParameters =
  nid :: NodeID
  via_eid :: EdgeID

text \<open>
  The two accumulators the graph walker fills, and the selection strategy it consults.
  A fresh intersection finder has made no hop and holds an empty intersection; the edge
  field is written by the walker before the detector reads it.
\<close>

record IntersectionFinderAccumulator =
  hops :: nat
  hop_limit :: nat
  via_edge_id :: EdgeID
  intersection :: IntersectionView

record LengthLimitedCoordinateAccumulator =
  max_length :: real
  accumulated_length :: real
  coordinates :: "Coordinate list"

record SelectStraightmostRoadByNameAndOnlyChoice =
  desired_name_id :: NameID
  initial_bearing :: real
  requires_entry :: bool

definition new_IntersectionFinderAccumulator :: "nat \<Rightarrow> IntersectionFinderAccumulator" where
  "new_IntersectionFinderAccumulator limit =
     \<lparr>hops = 0, hop_limit = limit, via_edge_id = 0, intersection = []\<rparr>"

definition new_LengthLimitedCoordinateAccumulator ::
  "real \<Rightarrow> LengthLimitedCoordinateAccumulator" where
  "new_LengthLimitedCoordinateAccumulator len =
     \<lparr>max_length = len, accumulated_length = 0, coordinates = []\<rparr>"

text \<open>
  The collaborators of the detector that live in other files are parameters: junction
  skipping and intersection enumeration (the intersection generator), coordinate
  resampling (the coordinate extractor), the graph walker for either accumulator, the
  geometry utilities and the three angle constants of the guidance toolkit.
\<close>

record IntersectionGenerator =
  SkipDegreeTwoNodes :: "NodeID \<Rightarrow> EdgeID \<Rightarrow> IntersectionGenerationParameters"
  GetConnectedRoads :: "NodeID \<Rightarrow> EdgeID \<Rightarrow> IntersectionView"

record CoordinateExtractor =
  SampleCoordinates :: "Coordinate list \<Rightarrow> real \<Rightarrow> real \<Rightarrow> Coordinate list"

record Toolkit =
  TraverseRoad ::
    "NodeID \<Rightarrow> EdgeID \<Rightarrow> IntersectionFinderAccumulator \<Rightarrow>
     SelectStraightmostRoadByNameAndOnlyChoice \<Rightarrow> IntersectionFinderAccumulator"
  TraverseRoadLength ::
    "NodeID \<Rightarrow> EdgeID \<Rightarrow> LengthLimitedCoordinateAccumulator \<Rightarrow>
     SelectStraightmostRoadByNameAndOnlyChoice \<Rightarrow> LengthLimitedCoordinateAccumulator"
  haversineDistance :: "Coordinate \<Rightarrow> Coordinate \<Rightarrow> real"
  areParallel :: "Coordinate list \<Rightarrow> Coordinate list \<Rightarrow> bool"
  findClosestDistance :: "Coordinate \<Rightarrow> Coordinate list \<Rightarrow> real"
  restrictAngleToValidRange :: "real \<Rightarrow> real"
  NARROW_TURN_ANGLE :: real
  FUZZY_ANGLE_DIFFERENCE :: real
  STRAIGHT_ANGLE :: real

text \<open>
  The detector itself: the four members its constructor stores. There is one coordinate
  per node, looked up by node identifier.
\<close>

record MergableRoadDetector =
  node_based_graph :: NodeBasedDynamicGraph
  node_coordinates :: "NodeID \<Rightarrow> Coordinate"
  intersection_generator :: IntersectionGenerator
  coordinate_extractor :: CoordinateExtractor

text \<open>
  What the source does where C++ leaves the behaviour open: reading through the
  not-found result of a closest-turn lookup, and a failed \<^verbatim>\<open>BOOST_ASSERT\<close>.
\<close>

datatype failure = DereferencedEnd | AssertionFailed

section \<open>Geometry and lookup helpers\<close>

text \<open>
  Modelled from the spec: \<^verbatim>\<open>angularDeviation\<close> is declared in \<^verbatim>\<open>util/bearing.hpp\<close>; the spec
  gives it as the minimal circular deviation of two bearings, in the range from 0 to 180
  degrees.
\<close>

definition angularDeviation :: "real \<Rightarrow> real \<Rightarrow> real" where
  "angularDeviation a b = min (360 - \<bar>a - b\<bar>) \<bar>a - b\<bar>"

definition ASSUMED_LANE_WIDTH :: real where
  "ASSUMED_LANE_WIDTH = 3.25"

text \<open>
  Modelled from the spec: the closest-turn lookup of an intersection is declared with the
  intersection type, outside this file. The spec gives it as the record whose angle is
  nearest the target angle among those satisfying the optional predicate, and a
  not-found result when no record qualifies. Of several nearest records the first is taken.
\<close>

fun closest_of :: "real \<Rightarrow> IntersectionViewData \<Rightarrow> IntersectionView \<Rightarrow> IntersectionViewData" where
  "closest_of a best [] = best"
| "closest_of a best (r # rs) =
     closest_of a
       (if angularDeviation (angle r) a < angularDeviation (angle best) a then r else best) rs"

definition findClosestTurn :: "IntersectionView \<Rightarrow> real \<Rightarrow> IntersectionViewData option" where
  "findClosestTurn view a = (case view of [] \<Rightarrow> None | r # rs \<Rightarrow> Some (closest_of a r rs))"

definition findClosestTurn_if ::
  "IntersectionView \<Rightarrow> real \<Rightarrow> (IntersectionViewData \<Rightarrow> bool) \<Rightarrow> IntersectionViewData option" where
  "findClosestTurn_if view a P = findClosestTurn (filter P view) a"

section \<open>The detector\<close>

text \<open>The name check handed to the filtered lookup (lines 20 to 27).\<close>

definition makeCheckRoadForName ::
  "NameID \<Rightarrow> NodeBasedDynamicGraph \<Rightarrow> 'a MergableRoadData_scheme \<Rightarrow> bool" where
  "makeCheckRoadForName name g road = (name \<noteq> name_id (GetEdgeData g (eid road)))"

definition RoadDataIsCompatible :: "NodeBasedEdgeData \<Rightarrow> NodeBasedEdgeData \<Rightarrow> bool" where
  "RoadDataIsCompatible lhs_edge_data rhs_edge_data =
     (if reversed lhs_edge_data = reversed rhs_edge_data then False
      else if travel_mode lhs_edge_data \<noteq> travel_mode rhs_edge_data then False
      else if name_id lhs_edge_data \<noteq> name_id rhs_edge_data then False
      else road_classification lhs_edge_data = road_classification rhs_edge_data)"

definition IsTrafficLoop :: "MergableRoadDetector \<Rightarrow> NodeID \<Rightarrow> MergableRoadData \<Rightarrow> bool" where
  "IsTrafficLoop d intersection_node road =
     (let connection =
            SkipDegreeTwoNodes (intersection_generator d) intersection_node (eid road)
      in intersection_node = GetTarget (node_based_graph d) (via_eid connection))"

subsection \<open>Narrow triangles (lines 122 to 210)\<close>

text \<open>
  Lines 141 to 148 for the left side and 158 to 165 for the right side: when the
  intersection the walk stopped at has no turn near \<open>turn\<close> degrees, the walk goes on once
  along the turn closest to 180 degrees, into the same accumulator. Both lookups are read
  through without a test.
\<close>

definition continue_past_side_street ::
  "Toolkit \<Rightarrow> MergableRoadDetector \<Rightarrow> SelectStraightmostRoadByNameAndOnlyChoice \<Rightarrow> real \<Rightarrow>
   IntersectionFinderAccumulator \<Rightarrow> failure + IntersectionFinderAccumulator" where
  "continue_past_side_street t d selector turn accumulator =
     (case findClosestTurn (intersection accumulator) turn of
        None \<Rightarrow> Inl DereferencedEnd
      | Some closest \<Rightarrow>
          if angularDeviation (angle closest) turn > NARROW_TURN_ANGLE t then
            (case findClosestTurn (intersection accumulator) 180 of
               None \<Rightarrow> Inl DereferencedEnd
             | Some straight \<Rightarrow>
                 Inr (TraverseRoad t
                        (GetTarget (node_based_graph d) (via_edge_id accumulator))
                        (eid straight) accumulator selector))
          else Inr accumulator)"

text \<open>The walk to one corner: lines 137 to 148 (left, 90) and 157 to 165 (right, 270).\<close>

definition walk_to_corner ::
  "Toolkit \<Rightarrow> MergableRoadDetector \<Rightarrow> SelectStraightmostRoadByNameAndOnlyChoice \<Rightarrow> NodeID \<Rightarrow>
   EdgeID \<Rightarrow> real \<Rightarrow> failure + IntersectionFinderAccumulator" where
  "walk_to_corner t d selector intersection_node edge turn =
     continue_past_side_street t d selector turn
       (TraverseRoad t intersection_node edge (new_IntersectionFinderAccumulator 5) selector)"

definition num_lanes :: "NodeBasedDynamicGraph \<Rightarrow> MergableRoadData \<Rightarrow> 8 word" where
  "num_lanes g road =
     max (GetNumberOfLanes (road_classification (GetEdgeData g (eid road)))) 1"

text \<open>
  Lines 157 to 209: what \<^verbatim>\<open>IsNarrowTriangle\<close> does once the left corner has passed the
  distance test, for a given selection strategy and left accumulator.
\<close>

definition narrow_triangle_right_side ::
  "Toolkit \<Rightarrow> MergableRoadDetector \<Rightarrow> SelectStraightmostRoadByNameAndOnlyChoice \<Rightarrow> NodeID \<Rightarrow>
   MergableRoadData \<Rightarrow> MergableRoadData \<Rightarrow> IntersectionFinderAccumulator \<Rightarrow> failure + bool" where
  "narrow_triangle_right_side t d selector intersection_node lhs rhs left_accumulator =
     (let g = node_based_graph d; coordinate = node_coordinates d in
      case walk_to_corner t d selector intersection_node (eid rhs) 270 of
        Inl e \<Rightarrow> Inl e
      | Inr right_accumulator \<Rightarrow>
          if intersection left_accumulator = [] \<or> intersection right_accumulator = []
          then Inl AssertionFailed
          else
            (case findClosestTurn (intersection left_accumulator) 90 of
               None \<Rightarrow> Inl DereferencedEnd
             | Some connector_turn \<Rightarrow>
                 if angularDeviation (angle connector_turn) 90 > NARROW_TURN_ANGLE t
                 then Inr False
                 else
                   let assumed_road_width =
                         real (unat (num_lanes g lhs) + unat (num_lanes g rhs)) *
                         ASSUMED_LANE_WIDTH;
                       distance_between_triangle_corners =
                         haversineDistance t
                           (coordinate (GetTarget g (via_edge_id left_accumulator)))
                           (coordinate (GetTarget g (via_edge_id right_accumulator)))
                   in if distance_between_triangle_corners > assumed_road_width + 10
                      then Inr False
                      else
                        let connect_accumulator =
                              TraverseRoad t
                                (GetTarget g (via_edge_id left_accumulator))
                                (eid connector_turn)
                                (new_IntersectionFinderAccumulator 5) selector
                        in Inr (GetTarget g (via_edge_id connect_accumulator) =
                                GetTarget g (via_edge_id right_accumulator))))"

text \<open>
  Lines 126 to 155, then the rest: the body of \<^verbatim>\<open>IsNarrowTriangle\<close> for a given selection
  strategy.
\<close>

definition narrow_triangle_with ::
  "Toolkit \<Rightarrow> MergableRoadDetector \<Rightarrow> SelectStraightmostRoadByNameAndOnlyChoice \<Rightarrow> NodeID \<Rightarrow>
   MergableRoadData \<Rightarrow> MergableRoadData \<Rightarrow> failure + bool" where
  "narrow_triangle_with t d selector intersection_node lhs rhs =
     (case walk_to_corner t d selector intersection_node (eid lhs) 90 of
        Inl e \<Rightarrow> Inl e
      | Inr left_accumulator \<Rightarrow>
          let distance_to_triangle =
                haversineDistance t (node_coordinates d intersection_node)
                  (node_coordinates d
                     (GetTarget (node_based_graph d) (via_edge_id left_accumulator)))
          in if distance_to_triangle > 80 then Inr False
             else narrow_triangle_right_side t d selector intersection_node lhs rhs
                    left_accumulator)"

text \<open>The selection strategy of line 133, built from the left road.\<close>

definition selector_of :: "MergableRoadDetector \<Rightarrow> MergableRoadData \<Rightarrow>
   SelectStraightmostRoadByNameAndOnlyChoice" where
  "selector_of d lhs =
     \<lparr>desired_name_id = name_id (GetEdgeData (node_based_graph d) (eid lhs)),
      initial_bearing = bearing lhs, requires_entry = False\<rparr>"

definition IsNarrowTriangle ::
  "Toolkit \<Rightarrow> MergableRoadDetector \<Rightarrow> NodeID \<Rightarrow> MergableRoadData \<Rightarrow> MergableRoadData \<Rightarrow>
   failure + bool" where
  "IsNarrowTriangle t d intersection_node lhs rhs =
     narrow_triangle_with t d (selector_of d lhs) intersection_node lhs rhs"

subsection \<open>Parallel roads (lines 212 to 284)\<close>

definition getCoordinatesAlongWay ::
  "Toolkit \<Rightarrow> MergableRoadDetector \<Rightarrow> NodeID \<Rightarrow> MergableRoadData \<Rightarrow> EdgeID \<Rightarrow> real \<Rightarrow>
   real \<times> Coordinate list" where
  "getCoordinatesAlongWay t d intersection_node lhs edge_id len =
     (let selector =
            \<lparr>desired_name_id = name_id (GetEdgeData (node_based_graph d) edge_id),
             initial_bearing = bearing lhs, requires_entry = False\<rparr>;
          accumulator =
            TraverseRoadLength t intersection_node edge_id
              (new_LengthLimitedCoordinateAccumulator len) selector
      in (accumulated_length accumulator, coordinates accumulator))"

text \<open>Lines 258 to 261: drop the first third; the size is asserted to be at least 3.\<close>

definition prune :: "'a list \<Rightarrow> failure + 'a list" where
  "prune data_vector =
     (if 3 \<le> length data_vector then Inr (drop (length data_vector div 3) data_vector)
      else Inl AssertionFailed)"

definition combined_road_width :: "NodeBasedDynamicGraph \<Rightarrow> MergableRoadData \<Rightarrow> MergableRoadData \<Rightarrow> real" where
  "combined_road_width g lhs rhs =
     0.5 *
     real_of_int
       (max 1 (uint (GetNumberOfLanes (road_classification (GetEdgeData g (eid lhs))))) +
        max 1 (uint (GetNumberOfLanes (road_classification (GetEdgeData g (eid rhs)))))) *
     ASSUMED_LANE_WIDTH"

definition HaveSameDirection ::
  "Toolkit \<Rightarrow> MergableRoadDetector \<Rightarrow> NodeID \<Rightarrow> MergableRoadData \<Rightarrow> MergableRoadData \<Rightarrow>
   failure + bool" where
  "HaveSameDirection t d intersection_node lhs rhs =
     (if angularDeviation (bearing lhs) (bearing rhs) > 95 then Inr False
      else
        let distance_to_extract = 100;
            (distance_traversed_to_the_left, coordinates_to_the_left) =
              getCoordinatesAlongWay t d intersection_node lhs (eid lhs) distance_to_extract
        in if distance_traversed_to_the_left \<le> 40 then Inr False
        else
          let (distance_traversed_to_the_right, coordinates_to_the_right) =
                getCoordinatesAlongWay t d intersection_node lhs (eid rhs) distance_to_extract
          in if distance_traversed_to_the_right \<le> 40 then Inr False
          else
            (case prune (SampleCoordinates (coordinate_extractor d) coordinates_to_the_left
                           distance_to_extract 5) of
               Inl e \<Rightarrow> Inl e
             | Inr pruned_left \<Rightarrow>
                 (case prune (SampleCoordinates (coordinate_extractor d)
                                coordinates_to_the_right distance_to_extract 5) of
                    Inl e \<Rightarrow> Inl e
                  | Inr pruned_right \<Rightarrow>
                      if \<not> areParallel t pruned_left pruned_right then Inr False
                      else
                        let distance_between_roads =
                              findClosestDistance t
                                (pruned_left ! (length pruned_left div 2)) pruned_right
                        in Inr (distance_between_roads \<le>
                                combined_road_width (node_based_graph d) lhs rhs + 8))))"

subsection \<open>Reconvergence (lines 286 to 345)\<close>

definition all_same_name_and_degree_three :: "NodeBasedDynamicGraph \<Rightarrow> NodeID \<Rightarrow> bool" where
  "all_same_name_and_degree_three g n =
     (if GetOutDegree g n \<noteq> 3 then False
      else
        let range = GetAdjacentEdgeRange g n;
            required_name_id = name_id (GetEdgeData g (hd range))
        in list_all (\<lambda>edge_id. name_id (GetEdgeData g edge_id) = required_name_id) range)"

definition ConnectAgain ::
  "Toolkit \<Rightarrow> MergableRoadDetector \<Rightarrow> NodeID \<Rightarrow> MergableRoadData \<Rightarrow> MergableRoadData \<Rightarrow> bool" where
  "ConnectAgain t d intersection_node lhs rhs =
     (let g = node_based_graph d;
          left_connection =
            SkipDegreeTwoNodes (intersection_generator d) intersection_node (eid lhs);
          right_connection =
            SkipDegreeTwoNodes (intersection_generator d) intersection_node (eid rhs);
          left_candidate = GetTarget g (via_eid left_connection);
          right_candidate = GetTarget g (via_eid right_connection);
          candidate_is_valid =
            (left_candidate = right_candidate \<and> left_candidate \<noteq> intersection_node)
      in if \<not> candidate_is_valid then False
         else
           let degree_three_connect_in = all_same_name_and_degree_three g intersection_node;
               degree_three_connect_out = all_same_name_and_degree_three g left_candidate
           in if \<not> degree_three_connect_in \<and> \<not> degree_three_connect_out then False
              else if degree_three_connect_in \<and> degree_three_connect_out then True
              else
                let distance_between_candidates =
                      haversineDistance t (node_coordinates d intersection_node)
                        (node_coordinates d left_candidate)
                in distance_between_candidates < 15)"

subsection \<open>Link roads (lines 347 to 388)\<close>

definition IsLinkRoad ::
  "Toolkit \<Rightarrow> MergableRoadDetector \<Rightarrow> NodeID \<Rightarrow> MergableRoadData \<Rightarrow> failure + bool" where
  "IsLinkRoad t d intersection_node road =
     (let g = node_based_graph d;
          next_intersection_parameters =
            SkipDegreeTwoNodes (intersection_generator d) intersection_node (eid road);
          next_intersection_along_road =
            GetConnectedRoads (intersection_generator d)
              (nid next_intersection_parameters) (via_eid next_intersection_parameters);
          requested_name = name_id (GetEdgeData g (eid road))
      in case findClosestTurn_if next_intersection_along_road (STRAIGHT_ANGLE t)
                (makeCheckRoadForName requested_name g) of
           None \<Rightarrow> Inr False
         | Some next_road_along_path \<Rightarrow>
             (case findClosestTurn next_intersection_along_road
                     (restrictAngleToValidRange t (angle next_road_along_path + 180)) of
                None \<Rightarrow> Inl DereferencedEnd
              | Some opposite_of_next_road_along_path \<Rightarrow>
                  if GetTarget g (eid opposite_of_next_road_along_path) =
                     nid next_intersection_parameters
                  then Inr False
                  else if angularDeviation
                            (angularDeviation (angle next_road_along_path) 180)
                            (angularDeviation (angle opposite_of_next_road_along_path) 0)
                          < FUZZY_ANGLE_DIFFERENCE t
                  then Inr False
                  else Inr (angularDeviation (angle opposite_of_next_road_along_path)
                              (angle next_road_along_path) \<ge> 160 \<and>
                            RoadDataIsCompatible
                              (GetEdgeData g (eid next_road_along_path))
                              (GetEdgeData g (eid opposite_of_next_road_along_path)))))"

subsection \<open>The orchestrator (lines 39 to 90)\<close>

text \<open>
  \<^verbatim>\<open>a || b\<close> over results that may fail: the right operand is evaluated only when the
  left one returned false.
\<close>

definition or_else :: "failure + bool \<Rightarrow> failure + bool \<Rightarrow> failure + bool" where
  "or_else a b = (case a of Inl e \<Rightarrow> Inl e | Inr x \<Rightarrow> if x then Inr True else b)"

definition road_target :: "NodeBasedDynamicGraph \<Rightarrow> MergableRoadData \<Rightarrow> NodeID" where
  "road_target g road = GetTarget g (eid road)"

definition CanMergeRoad ::
  "Toolkit \<Rightarrow> MergableRoadDetector \<Rightarrow> NodeID \<Rightarrow> MergableRoadData \<Rightarrow> MergableRoadData \<Rightarrow>
   failure + bool" where
  "CanMergeRoad t d intersection_node lhs rhs =
     (if angularDeviation (bearing lhs) (bearing rhs) > 95 then Inr False
      else
        let g = node_based_graph d;
            lhs_edge_data = GetEdgeData g (eid lhs);
            rhs_edge_data = GetEdgeData g (eid rhs)
        in if roundabout lhs_edge_data \<or> roundabout rhs_edge_data then Inr False
           else if \<not> RoadDataIsCompatible lhs_edge_data rhs_edge_data then Inr False
           else if road_target g lhs = intersection_node \<or> road_target g lhs = intersection_node
           then Inr False
           else if IsTrafficLoop d intersection_node lhs \<or> IsTrafficLoop d intersection_node rhs
           then Inr False
           else if ConnectAgain t d intersection_node lhs rhs then Inr True
           else
             (case or_else (IsLinkRoad t d intersection_node lhs)
                     (IsLinkRoad t d intersection_node rhs) of
                Inl e \<Rightarrow> Inl e
              | Inr is_link \<Rightarrow>
                  if is_link then Inr False
                  else
                    (case IsNarrowTriangle t d intersection_node lhs rhs of
                       Inl e \<Rightarrow> Inl e
                     | Inr is_triangle \<Rightarrow>
                         if is_triangle then Inr True
                         else HaveSameDirection t d intersection_node lhs rhs)))"

section \<open>Notions used in the properties\<close>

text \<open>
  The node reached by skipping pass-through nodes along a road (the candidate of
  \<^verbatim>\<open>ConnectAgain\<close>, lines 293 to 299), the intersection found there (lines 350 to 353) and
  the name of a road.
\<close>

definition next_decision_node ::
  "MergableRoadDetector \<Rightarrow> NodeID \<Rightarrow> MergableRoadData \<Rightarrow> NodeID" where
  "next_decision_node d n road =
     GetTarget (node_based_graph d)
       (via_eid (SkipDegreeTwoNodes (intersection_generator d) n (eid road)))"

definition next_intersection_along ::
  "MergableRoadDetector \<Rightarrow> NodeID \<Rightarrow> MergableRoadData \<Rightarrow> IntersectionView" where
  "next_intersection_along d n road =
     GetConnectedRoads (intersection_generator d)
       (nid (SkipDegreeTwoNodes (intersection_generator d) n (eid road)))
       (via_eid (SkipDegreeTwoNodes (intersection_generator d) n (eid road)))"

definition road_name :: "MergableRoadDetector \<Rightarrow> 'a MergableRoadData_scheme \<Rightarrow> NameID" where
  "road_name d road = name_id (GetEdgeData (node_based_graph d) (eid road))"

text \<open>
  The spec's homogeneous degree-three node: out-degree exactly 3 and every two incident
  edges carry the same name identifier.
\<close>

definition homogeneous_degree_three :: "NodeBasedDynamicGraph \<Rightarrow> NodeID \<Rightarrow> bool" where
  "homogeneous_degree_three g v =
     (GetOutDegree g v = 3 \<and>
      list_all
        (\<lambda>e. list_all (\<lambda>e'. name_id (GetEdgeData g e) = name_id (GetEdgeData g e'))
                (GetAdjacentEdgeRange g v))
        (GetAdjacentEdgeRange g v))"

text \<open>
  For \<^verbatim>\<open>HaveSameDirection\<close>: the length walked along an edge, the resampled and pruned
  polyline of that walk, and the lane count of a road.
\<close>

definition walked_length ::
  "Toolkit \<Rightarrow> MergableRoadDetector \<Rightarrow> NodeID \<Rightarrow> MergableRoadData \<Rightarrow> EdgeID \<Rightarrow> real" where
  "walked_length t d n lhs e = fst (getCoordinatesAlongWay t d n lhs e 100)"

definition pruned_polyline ::
  "Toolkit \<Rightarrow> MergableRoadDetector \<Rightarrow> NodeID \<Rightarrow> MergableRoadData \<Rightarrow> EdgeID \<Rightarrow>
   failure + Coordinate list" where
  "pruned_polyline t d n lhs e =
     prune (SampleCoordinates (coordinate_extractor d)
              (snd (getCoordinatesAlongWay t d n lhs e 100)) 100 5)"

definition lane_count :: "MergableRoadDetector \<Rightarrow> MergableRoadData \<Rightarrow> int" where
  "lane_count d road =
     uint (GetNumberOfLanes (road_classification (GetEdgeData (node_based_graph d) (eid road))))"

text \<open>
  For \<^verbatim>\<open>IsNarrowTriangle\<close>: the accumulator of the left walk, and the distance from the
  intersection node to the node an accumulator stopped at.
\<close>

definition left_corner ::
  "Toolkit \<Rightarrow> MergableRoadDetector \<Rightarrow> NodeID \<Rightarrow> MergableRoadData \<Rightarrow>
   failure + IntersectionFinderAccumulator" where
  "left_corner t d n lhs = walk_to_corner t d (selector_of d lhs) n (eid lhs) 90"

definition corner_distance ::
  "Toolkit \<Rightarrow> MergableRoadDetector \<Rightarrow> NodeID \<Rightarrow> IntersectionFinderAccumulator \<Rightarrow> real" where
  "corner_distance t d n accumulator =
     haversineDistance t (node_coordinates d n)
       (node_coordinates d (GetTarget (node_based_graph d) (via_edge_id accumulator)))"

section \<open>An example town\<close>

text \<open>
  A small road network on which the detector is run. All roads are called 7 except the
  cross street 9 at node 41; every edge has one lane.
  \<^item> Node 0: a road forks into edges 0 (to node 1) and 1 (to node 2); nodes 1 and 2 are
    joined by edges 4 and 7, 12 metres apart, and the roads go on to nodes 3 and 4.
  \<^item> Node 10: edges 20 and 21 both lead to node 11, 10 metres away; both nodes have
    three edges.
  \<^item> Node 30: two edges only, edge 30 to node 31 and the loop 31 back to node 30;
    skipping pass-through nodes along the loop comes back through node 30 and leaves by
    edge 30.
  \<^item> Node 40: edge 40 reaches node 41, where street 9 crosses (edges 42 and 44).
  The walker stops at the first intersection it reaches; every walk by length covers 100
  metres.
\<close>

definition town_edge_target :: "EdgeID \<Rightarrow> NodeID" where
  "town_edge_target e =
     (case map_of
        [(0, 1), (1, 2), (2, 5), (3, 0), (4, 2), (5, 3), (6, 0), (7, 1), (8, 4),
         (9, 2), (10, 6), (11, 7),
         (20, 11), (21, 11), (22, 12), (23, 10), (24, 10), (25, 13),
         (30, 31), (31, 30), (32, 30), (33, 32), (34, 33),
         (40, 41), (41, 40), (42, 42), (43, 43), (44, 44)] e of
        Some v \<Rightarrow> v | None \<Rightarrow> 99)"

definition town_edge_data :: "EdgeID \<Rightarrow> NodeBasedEdgeData" where
  "town_edge_data e =
     \<lparr>reversed = (e \<in> set [1, 21, 31, 44]), roundabout = False, travel_mode = 1,
      name_id = (if e \<in> set [42, 44] then 9 else 7),
      road_classification =
        \<lparr>number_of_lanes = 1, link_class = False, road_priority_class = 4\<rparr>\<rparr>"

definition town_adjacent_edges :: "NodeID \<Rightarrow> EdgeID list" where
  "town_adjacent_edges v =
     (case map_of
        [(0, [0, 1, 2]), (1, [3, 4, 5]), (2, [6, 7, 8]), (4, [9, 10, 11]),
         (10, [20, 21, 22]), (11, [23, 24, 25]),
         (30, [30, 31]), (31, [32, 33, 34]),
         (41, [41, 42, 43, 44])] v of
        Some es \<Rightarrow> es | None \<Rightarrow> [])"

definition town_graph :: NodeBasedDynamicGraph where
  "town_graph =
     \<lparr>edge_data = town_edge_data, edge_target = town_edge_target,
      adjacent_edges = town_adjacent_edges\<rparr>"

definition view_road :: "EdgeID \<Rightarrow> real \<Rightarrow> real \<Rightarrow> IntersectionViewData" where
  "view_road e b a = \<lparr>eid = e, bearing = b, angle = a\<rparr>"

definition town_connected_roads :: "NodeID \<Rightarrow> EdgeID \<Rightarrow> IntersectionView" where
  "town_connected_roads v e =
     (case map_of
        [((0, 0), [view_road 3 170 0, view_road 4 80 90, view_road 5 350 180]),
         ((0, 1), [view_road 6 190 0, view_road 8 10 180, view_road 7 280 270]),
         ((1, 4), [view_road 7 270 0, view_road 6 190 90, view_road 8 10 270]),
         ((2, 7), [view_road 4 90 0, view_road 5 350 90, view_road 3 170 270]),
         ((2, 8), [view_road 9 190 0, view_road 10 70 120, view_road 11 350 200]),
         ((10, 20), [view_road 23 175 0, view_road 24 190 15, view_road 25 355 180]),
         ((10, 21), [view_road 24 185 0, view_road 25 5 180, view_road 23 170 345]),
         ((30, 30), [view_road 32 180 0, view_road 33 90 90, view_road 34 0 180]),
         ((40, 40), [view_road 41 180 0, view_road 42 80 100, view_road 43 0 180, view_road 44 270 270])]
        (v, e) of
        Some view \<Rightarrow> view | None \<Rightarrow> [view_road e 180 0])"

definition town_skip :: "NodeID \<Rightarrow> EdgeID \<Rightarrow> IntersectionGenerationParameters" where
  "town_skip v e =
     (if v = 30 \<and> e = 31 then \<lparr>nid = 30, via_eid = 30\<rparr> else \<lparr>nid = v, via_eid = e\<rparr>)"

definition town_distance :: "Coordinate \<Rightarrow> Coordinate \<Rightarrow> real" where
  "town_distance p q =
     (case map_of
        [((0, 1), 80), ((0, 2), 80), ((1, 2), 12), ((0, 4), 150),
         ((10, 11), 10), ((30, 31), 10)] (fst p, fst q) of
        Some x \<Rightarrow> x | None \<Rightarrow> 50)"

definition town_polyline :: "EdgeID \<Rightarrow> Coordinate list" where
  "town_polyline e =
     [(int e, 0), (int e, 20), (int e, 40), (int e, 60), (int e, 80), (int e, 100)]"

definition town_toolkit :: Toolkit where
  "town_toolkit =
     \<lparr>TraverseRoad =
        (\<lambda>v e accumulator selector.
           accumulator\<lparr>hops := hops accumulator + 1, via_edge_id := e,
                        intersection := town_connected_roads v e\<rparr>),
      TraverseRoadLength =
        (\<lambda>v e accumulator selector.
           accumulator\<lparr>accumulated_length := 100, coordinates := town_polyline e\<rparr>),
      haversineDistance = town_distance,
      areParallel = (\<lambda>left right. False),
      findClosestDistance = (\<lambda>p line. 10),
      restrictAngleToValidRange =
        (\<lambda>a. if a < 0 then a + 360 else if a > 360 then a - 360 else a),
      NARROW_TURN_ANGLE = 40,
      FUZZY_ANGLE_DIFFERENCE = 25,
      STRAIGHT_ANGLE = 180\<rparr>"

definition town :: MergableRoadDetector where
  "town =
     \<lparr>node_based_graph = town_graph,
      node_coordinates = (\<lambda>v. (int v, 0)),
      intersection_generator =
        \<lparr>SkipDegreeTwoNodes = town_skip, GetConnectedRoads = town_connected_roads\<rparr>,
      coordinate_extractor = \<lparr>SampleCoordinates = (\<lambda>line len rate. line)\<rparr>\<rparr>"

definition candidate_road :: "EdgeID \<Rightarrow> real \<Rightarrow> MergableRoadData" where
  "candidate_road e b = \<lparr>eid = e, bearing = b\<rparr>"

text \<open>
  Variants of the toolkit: the two walked roads test as parallel; the fork's left corner
  lies a centimetre beyond 80 metres; a fuzzy-angle tolerance of 5 degrees.
\<close>

definition parallel_toolkit :: Toolkit where
  "parallel_toolkit = town_toolkit\<lparr>areParallel := (\<lambda>left right. True)\<rparr>"

definition far_corner_toolkit :: Toolkit where
  "far_corner_toolkit =
     town_toolkit\<lparr>haversineDistance :=
       (\<lambda>p q. if (fst p, fst q) = (0, 1) then 80.01 else town_distance p q)\<rparr>"

definition sharp_toolkit :: Toolkit where
  "sharp_toolkit = town_toolkit\<lparr>FUZZY_ANGLE_DIFFERENCE := 5\<rparr>"

section \<open>Auxiliary facts\<close>

lemmas town_defs =
  town_def town_toolkit_def town_graph_def town_edge_target_def town_edge_data_def
  town_adjacent_edges_def town_connected_roads_def town_skip_def town_distance_def
  town_polyline_def view_road_def candidate_road_def parallel_toolkit_def far_corner_toolkit_def
  sharp_toolkit_def

lemmas detector_defs =
  GetEdgeData_def GetTarget_def GetAdjacentEdgeRange_def GetOutDegree_def GetNumberOfLanes_def
  angularDeviation_def ASSUMED_LANE_WIDTH_def findClosestTurn_def findClosestTurn_if_def
  makeCheckRoadForName_def RoadDataIsCompatible_def IsTrafficLoop_def
  continue_past_side_street_def walk_to_corner_def num_lanes_def
  narrow_triangle_right_side_def narrow_triangle_with_def selector_of_def IsNarrowTriangle_def
  getCoordinatesAlongWay_def prune_def combined_road_width_def HaveSameDirection_def
  all_same_name_and_degree_three_def ConnectAgain_def IsLinkRoad_def or_else_def
  road_target_def CanMergeRoad_def new_IntersectionFinderAccumulator_def
  new_LengthLimitedCoordinateAccumulator_def

lemmas notion_defs =
  next_decision_node_def next_intersection_along_def road_name_def
  homogeneous_degree_three_def walked_length_def pruned_polyline_def lane_count_def
  left_corner_def corner_distance_def

subsection \<open>The closest-turn lookup\<close>

lemma closest_of_mem: "closest_of a best rs \<in> set (best # rs)"
  by (induction rs arbitrary: best) auto

lemma findClosestTurn_None_iff: "findClosestTurn view a = None \<longleftrightarrow> view = []"
  by (simp add: findClosestTurn_def split: list.splits)

lemma findClosestTurn_mem: "findClosestTurn view a = Some r \<Longrightarrow> r \<in> set view"
  using closest_of_mem by (fastforce simp: findClosestTurn_def split: list.splits)

lemma findClosestTurn_if_None_iff:
  "findClosestTurn_if view a P = None \<longleftrightarrow> list_all (\<lambda>r. \<not> P r) view"
  by (simp add: findClosestTurn_if_def findClosestTurn_None_iff filter_empty_conv list_all_iff)

lemma findClosestTurn_if_Some:
  "findClosestTurn_if view a P = Some r \<Longrightarrow> r \<in> set view \<and> P r"
  using findClosestTurn_mem[of "filter P view" a r] by (simp add: findClosestTurn_if_def)

lemma opposite_found:
  assumes "findClosestTurn_if view a P = Some r"
  shows "\<exists>opp. findClosestTurn view b = Some opp"
proof -
  from assms have "view \<noteq> []" using findClosestTurn_if_Some by fastforce
  then show ?thesis using findClosestTurn_None_iff[of view b] by auto
qed

subsection \<open>Symmetric stages\<close>

lemma angularDeviation_commute: "angularDeviation a b = angularDeviation b a"
  by (simp add: angularDeviation_def abs_minus_commute)

lemma RoadDataIsCompatible_commute: "RoadDataIsCompatible l r = RoadDataIsCompatible r l"
  unfolding RoadDataIsCompatible_def by auto

lemma ConnectAgain_commute: "ConnectAgain t d n a b = ConnectAgain t d n b a"
  unfolding ConnectAgain_def Let_def by auto

subsection \<open>Link roads\<close>

lemma IsLinkRoad_unfold:
  "IsLinkRoad t d n road =
     (case findClosestTurn_if (next_intersection_along d n road) (STRAIGHT_ANGLE t)
             (\<lambda>r. road_name d r \<noteq> road_name d road) of
        None \<Rightarrow> Inr False
      | Some next_road \<Rightarrow>
          (case findClosestTurn (next_intersection_along d n road)
                  (restrictAngleToValidRange t (angle next_road + 180)) of
             None \<Rightarrow> Inl DereferencedEnd
           | Some opp \<Rightarrow>
               if GetTarget (node_based_graph d) (eid opp) =
                  nid (SkipDegreeTwoNodes (intersection_generator d) n (eid road))
               then Inr False
               else if angularDeviation (angularDeviation (angle next_road) 180)
                         (angularDeviation (angle opp) 0) < FUZZY_ANGLE_DIFFERENCE t
               then Inr False
               else Inr (angularDeviation (angle opp) (angle next_road) \<ge> 160 \<and>
                         RoadDataIsCompatible (GetEdgeData (node_based_graph d) (eid next_road))
                           (GetEdgeData (node_based_graph d) (eid opp)))))"
proof -
  have P: "makeCheckRoadForName (name_id (GetEdgeData (node_based_graph d) (eid road)))
             (node_based_graph d) = (\<lambda>r. road_name d r \<noteq> road_name d road)"
    by (auto simp: makeCheckRoadForName_def road_name_def fun_eq_iff)
  show ?thesis
    unfolding IsLinkRoad_def Let_def P next_intersection_along_def by (rule refl)
qed

lemma IsLinkRoad_returns: "\<exists>b. IsLinkRoad t d n road = Inr b"
proof (cases "findClosestTurn_if (next_intersection_along d n road) (STRAIGHT_ANGLE t)
             (\<lambda>r. road_name d r \<noteq> road_name d road)")
  case None
  then show ?thesis by (auto simp: IsLinkRoad_unfold)
next
  case (Some next_road)
  from opposite_found[OF Some] obtain opp where
    "findClosestTurn (next_intersection_along d n road)
       (restrictAngleToValidRange t (angle next_road + 180)) = Some opp"
    by blast
  with Some show ?thesis by (auto simp: IsLinkRoad_unfold)
qed

lemma or_else_commute:
  assumes "a = Inr x" "b = Inr y"
  shows "or_else a b = or_else b a"
  using assms by (auto simp: or_else_def)

lemma IsLinkRoad_or_commute:
  "or_else (IsLinkRoad t d n a) (IsLinkRoad t d n b) =
   or_else (IsLinkRoad t d n b) (IsLinkRoad t d n a)"
proof -
  obtain x y where "IsLinkRoad t d n a = Inr x" "IsLinkRoad t d n b = Inr y"
    using IsLinkRoad_returns by blast
  then show ?thesis by (rule or_else_commute)
qed

subsection \<open>Reconvergence\<close>

lemma all_same_name_and_degree_three_iff:
  "all_same_name_and_degree_three g v = homogeneous_degree_three g v"
proof (cases "adjacent_edges g v")
  case Nil
  then show ?thesis
    by (simp add: all_same_name_and_degree_three_def homogeneous_degree_three_def
          GetOutDegree_def GetAdjacentEdgeRange_def)
next
  case (Cons e es)
  then show ?thesis
    by (auto simp: all_same_name_and_degree_three_def homogeneous_degree_three_def
          GetOutDegree_def GetAdjacentEdgeRange_def list_all_iff Let_def)
qed

subsection \<open>Parallel roads\<close>

lemma HaveSameDirection_unfold:
  "HaveSameDirection t d n lhs rhs =
     (if angularDeviation (bearing lhs) (bearing rhs) > 95 then Inr False
      else if walked_length t d n lhs (eid lhs) \<le> 40 then Inr False
      else if walked_length t d n lhs (eid rhs) \<le> 40 then Inr False
      else case pruned_polyline t d n lhs (eid lhs) of
             Inl e \<Rightarrow> Inl e
           | Inr pl \<Rightarrow>
               (case pruned_polyline t d n lhs (eid rhs) of
                  Inl e \<Rightarrow> Inl e
                | Inr pr \<Rightarrow>
                    if \<not> areParallel t pl pr then Inr False
                    else Inr (findClosestDistance t (pl ! (length pl div 2)) pr \<le>
                              combined_road_width (node_based_graph d) lhs rhs + 8)))"
  unfolding HaveSameDirection_def walked_length_def pruned_polyline_def Let_def
  by (simp add: case_prod_beta)

lemma combined_road_width_eq:
  "combined_road_width (node_based_graph d) lhs rhs =
     0.5 * real_of_int (max 1 (lane_count d lhs) + max 1 (lane_count d rhs)) * 3.25"
  by (simp add: combined_road_width_def lane_count_def ASSUMED_LANE_WIDTH_def)

lemma prune_result:
  "prune xs = Inr ys \<Longrightarrow> 3 \<le> length xs \<and> ys = drop (length xs div 3) xs \<and> ys \<noteq> []"
  by (auto simp: prune_def split: if_splits)

lemma prune_failure: "prune xs = Inl e \<Longrightarrow> length xs < 3 \<and> e = AssertionFailed"
  by (auto simp: prune_def split: if_splits)

subsection \<open>Narrow triangles\<close>

lemma continue_past_side_street_returns:
  assumes "intersection accumulator \<noteq> []"
  shows "\<exists>acc. continue_past_side_street t d selector turn accumulator = Inr acc \<and>
           (acc = accumulator \<or>
            (\<exists>node edge. acc = TraverseRoad t node edge accumulator selector))"
proof -
  from assms obtain closest straight where
    "findClosestTurn (intersection accumulator) turn = Some closest"
    "findClosestTurn (intersection accumulator) 180 = Some straight"
    using findClosestTurn_None_iff by (metis not_Some_eq)
  then show ?thesis
    by (auto simp: continue_past_side_street_def)
qed

lemma walk_to_corner_returns:
  assumes "\<forall>node edge acc. intersection (TraverseRoad t node edge acc selector) \<noteq> []"
  shows "\<exists>acc. walk_to_corner t d selector n e turn = Inr acc \<and> intersection acc \<noteq> []"
proof -
  let ?first = "TraverseRoad t n e (new_IntersectionFinderAccumulator 5) selector"
  have "intersection ?first \<noteq> []" using assms by blast
  from continue_past_side_street_returns[OF this, of t d selector turn]
  show ?thesis unfolding walk_to_corner_def using assms by auto
qed

subsection \<open>The orchestrator\<close>

text \<open>A left edge that leads back to the intersection node is rejected by line 69.\<close>

lemma CanMergeRoad_lhs_self_loop:
  assumes "GetTarget (node_based_graph d) (eid lhs) = n"
  shows "CanMergeRoad t d n lhs rhs = Inr False"
  using assms by (simp add: CanMergeRoad_def Let_def road_target_def)

section \<open>Properties\<close>

text \<open>
  C1: the claim is that \<^verbatim>\<open>CanMergeRoad\<close> returns false whenever the target of the left or
  of the right edge is the intersection node itself. The guard of line 69 tests the left
  edge twice and the right edge never. At node 30 of the town the right edge 31 loops
  back to node 30, and the two roads are still reported mergable.
\<close>

theorem CanMergeRoad_rhs_self_loop_merged:
  "GetTarget (node_based_graph town) (eid (candidate_road 31 20)) = 30 \<and>
   CanMergeRoad town_toolkit town 30 (candidate_road 30 0) (candidate_road 31 20) = Inr True"
  by (simp add: town_defs detector_defs Let_def)

text \<open>
  C2: the claim is that swapping the two candidates never changes the verdict of
  \<^verbatim>\<open>CanMergeRoad\<close>. At the fork of node 0 it does: with edge 0 on the left the narrow
  triangle is found, with edge 1 on the left it is not.
\<close>

theorem CanMergeRoad_swap_counterexample:
  "CanMergeRoad town_toolkit town 0 (candidate_road 0 350) (candidate_road 1 10) \<noteq>
   CanMergeRoad town_toolkit town 0 (candidate_road 1 10) (candidate_road 0 350)"
  by (simp add: town_defs detector_defs Let_def)

text \<open>
  C2, amended: when neither edge leads back to the intersection node, and the
  narrow-triangle test and the same-direction test each give the same result for both
  orders of the candidates, swapping the candidates preserves the verdict of
  \<^verbatim>\<open>CanMergeRoad\<close>; every other stage is symmetric in the two candidates.
\<close>

theorem CanMergeRoad_swap:
  assumes "GetTarget (node_based_graph d) (eid a) \<noteq> n"
    and "GetTarget (node_based_graph d) (eid b) \<noteq> n"
    and "IsNarrowTriangle t d n a b = IsNarrowTriangle t d n b a"
    and "HaveSameDirection t d n a b = HaveSameDirection t d n b a"
  shows "CanMergeRoad t d n a b = CanMergeRoad t d n b a"
proof -
  have "CanMergeRoad t d n a b =
     (if angularDeviation (bearing b) (bearing a) > 95 then Inr False
      else if roundabout (GetEdgeData (node_based_graph d) (eid b)) \<or>
              roundabout (GetEdgeData (node_based_graph d) (eid a)) then Inr False
      else if \<not> RoadDataIsCompatible (GetEdgeData (node_based_graph d) (eid b))
                  (GetEdgeData (node_based_graph d) (eid a)) then Inr False
      else if IsTrafficLoop d n b \<or> IsTrafficLoop d n a then Inr False
      else if ConnectAgain t d n b a then Inr True
      else (case or_else (IsLinkRoad t d n b) (IsLinkRoad t d n a) of
              Inl e \<Rightarrow> Inl e
            | Inr is_link \<Rightarrow>
                if is_link then Inr False
                else (case IsNarrowTriangle t d n b a of
                        Inl e \<Rightarrow> Inl e
                      | Inr is_triangle \<Rightarrow>
                          if is_triangle then Inr True
                          else HaveSameDirection t d n b a)))"
    unfolding CanMergeRoad_def Let_def road_target_def
      angularDeviation_commute[of "bearing a"]
      RoadDataIsCompatible_commute[of "GetEdgeData (node_based_graph d) (eid a)"]
      ConnectAgain_commute[of t d n a]
      IsLinkRoad_or_commute[of t d n a]
      assms(3) assms(4)
    using assms(1) by auto
  also have "\<dots> = CanMergeRoad t d n b a"
    unfolding CanMergeRoad_def Let_def road_target_def using assms(2) by auto
  finally show ?thesis .
qed

text \<open>
  At node 10 of the town neither order finds a narrow triangle or parallel roads, and
  both orders give the same verdict.
\<close>

theorem CanMergeRoad_swap_witness:
  "GetTarget (node_based_graph town) (eid (candidate_road 20 355)) \<noteq> 10 \<and>
   GetTarget (node_based_graph town) (eid (candidate_road 21 5)) \<noteq> 10 \<and>
   IsNarrowTriangle town_toolkit town 10 (candidate_road 20 355) (candidate_road 21 5) =
     IsNarrowTriangle town_toolkit town 10 (candidate_road 21 5) (candidate_road 20 355) \<and>
   HaveSameDirection town_toolkit town 10 (candidate_road 20 355) (candidate_road 21 5) =
     HaveSameDirection town_toolkit town 10 (candidate_road 21 5) (candidate_road 20 355) \<and>
   CanMergeRoad town_toolkit town 10 (candidate_road 20 355) (candidate_road 21 5) =
     CanMergeRoad town_toolkit town 10 (candidate_road 21 5) (candidate_road 20 355)"
proof -
  have 1: "GetTarget (node_based_graph town) (eid (candidate_road 20 355)) \<noteq> 10"
    by (simp add: town_defs detector_defs)
  have 2: "GetTarget (node_based_graph town) (eid (candidate_road 21 5)) \<noteq> 10"
    by (simp add: town_defs detector_defs)
  have 3: "IsNarrowTriangle town_toolkit town 10 (candidate_road 20 355) (candidate_road 21 5) =
     IsNarrowTriangle town_toolkit town 10 (candidate_road 21 5) (candidate_road 20 355)"
    by (simp add: town_defs detector_defs Let_def)
  have 4: "HaveSameDirection town_toolkit town 10 (candidate_road 20 355) (candidate_road 21 5) =
     HaveSameDirection town_toolkit town 10 (candidate_road 21 5) (candidate_road 20 355)"
    by (simp add: town_defs detector_defs Let_def)
  from CanMergeRoad_swap[OF 1 2 3 4] 1 2 3 4 show ?thesis by blast
qed

text \<open>
  C3: when the bearings deviate by at most 95 degrees, neither edge is a roundabout, the
  edge data are compatible, neither edge leads back to the intersection node and neither
  side is a traffic loop, then \<^verbatim>\<open>ConnectAgain\<close> being true makes \<^verbatim>\<open>CanMergeRoad\<close> return
  true, whatever \<^verbatim>\<open>IsLinkRoad\<close>, \<^verbatim>\<open>IsNarrowTriangle\<close> and \<^verbatim>\<open>HaveSameDirection\<close> would say.
\<close>

theorem CanMergeRoad_ConnectAgain:
  assumes "angularDeviation (bearing lhs) (bearing rhs) \<le> 95"
    and "\<not> roundabout (GetEdgeData (node_based_graph d) (eid lhs))"
    and "\<not> roundabout (GetEdgeData (node_based_graph d) (eid rhs))"
    and "RoadDataIsCompatible (GetEdgeData (node_based_graph d) (eid lhs))
           (GetEdgeData (node_based_graph d) (eid rhs))"
    and "GetTarget (node_based_graph d) (eid lhs) \<noteq> n"
    and "GetTarget (node_based_graph d) (eid rhs) \<noteq> n"
    and "\<not> IsTrafficLoop d n lhs"
    and "\<not> IsTrafficLoop d n rhs"
    and "ConnectAgain t d n lhs rhs"
  shows "CanMergeRoad t d n lhs rhs = Inr True"
  using assms by (simp add: CanMergeRoad_def Let_def road_target_def)

text \<open>
  At node 10 of the town the two roads meet again at node 11; no narrow triangle and no
  parallel roads are found there, and the roads are mergable.
\<close>

theorem CanMergeRoad_ConnectAgain_witness:
  "angularDeviation (bearing (candidate_road 20 355)) (bearing (candidate_road 21 5)) \<le> 95 \<and>
   \<not> roundabout (GetEdgeData (node_based_graph town) (eid (candidate_road 20 355))) \<and>
   \<not> roundabout (GetEdgeData (node_based_graph town) (eid (candidate_road 21 5))) \<and>
   RoadDataIsCompatible (GetEdgeData (node_based_graph town) (eid (candidate_road 20 355)))
     (GetEdgeData (node_based_graph town) (eid (candidate_road 21 5))) \<and>
   GetTarget (node_based_graph town) (eid (candidate_road 20 355)) \<noteq> 10 \<and>
   GetTarget (node_based_graph town) (eid (candidate_road 21 5)) \<noteq> 10 \<and>
   \<not> IsTrafficLoop town 10 (candidate_road 20 355) \<and>
   \<not> IsTrafficLoop town 10 (candidate_road 21 5) \<and>
   ConnectAgain town_toolkit town 10 (candidate_road 20 355) (candidate_road 21 5) \<and>
   IsNarrowTriangle town_toolkit town 10 (candidate_road 20 355) (candidate_road 21 5) =
     Inr False \<and>
   HaveSameDirection town_toolkit town 10 (candidate_road 20 355) (candidate_road 21 5) =
     Inr False \<and>
   CanMergeRoad town_toolkit town 10 (candidate_road 20 355) (candidate_road 21 5) = Inr True"
proof -
  have 1: "angularDeviation (bearing (candidate_road 20 355)) (bearing (candidate_road 21 5))
             \<le> 95"
    by (simp add: town_defs detector_defs)
  have 2: "\<not> roundabout (GetEdgeData (node_based_graph town) (eid (candidate_road 20 355)))"
    by (simp add: town_defs detector_defs)
  have 3: "\<not> roundabout (GetEdgeData (node_based_graph town) (eid (candidate_road 21 5)))"
    by (simp add: town_defs detector_defs)
  have 4: "RoadDataIsCompatible
             (GetEdgeData (node_based_graph town) (eid (candidate_road 20 355)))
             (GetEdgeData (node_based_graph town) (eid (candidate_road 21 5)))"
    by (simp add: town_defs detector_defs)
  have 5: "GetTarget (node_based_graph town) (eid (candidate_road 20 355)) \<noteq> 10"
    by (simp add: town_defs detector_defs)
  have 6: "GetTarget (node_based_graph town) (eid (candidate_road 21 5)) \<noteq> 10"
    by (simp add: town_defs detector_defs)
  have 7: "\<not> IsTrafficLoop town 10 (candidate_road 20 355)"
    by (simp add: town_defs detector_defs)
  have 8: "\<not> IsTrafficLoop town 10 (candidate_road 21 5)"
    by (simp add: town_defs detector_defs)
  have 9: "ConnectAgain town_toolkit town 10 (candidate_road 20 355) (candidate_road 21 5)"
    by (simp add: town_defs detector_defs Let_def)
  have 10: "IsNarrowTriangle town_toolkit town 10 (candidate_road 20 355)
              (candidate_road 21 5) = Inr False"
    by (simp add: town_defs detector_defs Let_def)
  have 11: "HaveSameDirection town_toolkit town 10 (candidate_road 20 355)
              (candidate_road 21 5) = Inr False"
    by (simp add: town_defs detector_defs Let_def)
  from CanMergeRoad_ConnectAgain[OF 1 2 3 4 5 6 7 8 9] 1 2 3 4 5 6 7 8 9 10 11
  show ?thesis by blast
qed

text \<open>
  C4: \<^verbatim>\<open>ConnectAgain\<close> is true exactly when skipping pass-through nodes along both roads
  reaches one and the same node, other than the intersection node, and either both that
  node and the intersection node are homogeneous degree-three, or exactly one of them is
  and the great-circle distance between the two nodes is strictly below 15 metres.
\<close>

theorem ConnectAgain_verdict:
  fixes t d n lhs rhs
  defines "candidate \<equiv> next_decision_node d n lhs"
    and "g \<equiv> node_based_graph d"
  defines "distance \<equiv>
             haversineDistance t (node_coordinates d n) (node_coordinates d candidate)"
  shows "ConnectAgain t d n lhs rhs =
           (candidate = next_decision_node d n rhs \<and> candidate \<noteq> n \<and>
            (if homogeneous_degree_three g n \<and> homogeneous_degree_three g candidate then True
             else if homogeneous_degree_three g n \<noteq> homogeneous_degree_three g candidate
                  then distance < 15
             else False))"
  unfolding ConnectAgain_def Let_def all_same_name_and_degree_three_iff
    candidate_def g_def distance_def next_decision_node_def
  by auto

text \<open>
  In the town: both nodes homogeneous at nodes 10 and 11; only node 31 homogeneous, 10
  metres from node 30; two different candidates at the fork of node 0.
\<close>

theorem ConnectAgain_verdict_witness:
  "ConnectAgain town_toolkit town 10 (candidate_road 20 355) (candidate_road 21 5) \<and>
   ConnectAgain town_toolkit town 30 (candidate_road 30 0) (candidate_road 31 20) \<and>
   \<not> ConnectAgain town_toolkit town 0 (candidate_road 0 350) (candidate_road 1 10)"
  by (simp add: ConnectAgain_verdict town_defs notion_defs
        GetEdgeData_def GetTarget_def GetAdjacentEdgeRange_def GetOutDegree_def)

text \<open>
  C5: \<^verbatim>\<open>HaveSameDirection\<close> returns false when the bearings deviate by more than 95
  degrees or the walk along either side covers at most 40 metres. Otherwise, with the
  resampled polylines pruned to their last two thirds, it returns true exactly when the
  two polylines test as parallel and the distance from the midpoint of the left one to
  the right one is at most 0.5 times the sum of the two lane counts (each at least 1)
  times 3.25 metres, plus 8 metres. (Pruning asserts at least three resampled points; a
  call that passes the first tests with fewer fails that assertion.)
\<close>

theorem HaveSameDirection_verdict:
  fixes t d n lhs rhs
  defines "deviation \<equiv> angularDeviation (bearing lhs) (bearing rhs)"
    and "left_length \<equiv> walked_length t d n lhs (eid lhs)"
    and "right_length \<equiv> walked_length t d n lhs (eid rhs)"
    and "width \<equiv>
           0.5 * real_of_int (max 1 (lane_count d lhs) + max 1 (lane_count d rhs)) * 3.25"
  shows "(95 < deviation \<or> left_length \<le> 40 \<or> right_length \<le> 40 \<longrightarrow>
            HaveSameDirection t d n lhs rhs = Inr False) \<and>
         (\<forall>left right.
            deviation \<le> 95 \<and> 40 < left_length \<and> 40 < right_length \<and>
            pruned_polyline t d n lhs (eid lhs) = Inr left \<and>
            pruned_polyline t d n lhs (eid rhs) = Inr right \<longrightarrow>
            HaveSameDirection t d n lhs rhs =
              Inr (areParallel t left right \<and>
                   findClosestDistance t (left ! (length left div 2)) right \<le> width + 8)) \<and>
         (\<forall>e. deviation \<le> 95 \<and> 40 < left_length \<and> 40 < right_length \<and>
            (pruned_polyline t d n lhs (eid lhs) = Inl e \<or>
             pruned_polyline t d n lhs (eid rhs) = Inl e) \<longrightarrow>
            HaveSameDirection t d n lhs rhs = Inl AssertionFailed)"
proof -
  have failed: "e = AssertionFailed" if "pruned_polyline t d n lhs edge = Inl e" for e edge
    using that prune_failure unfolding pruned_polyline_def by blast
  show ?thesis
    unfolding deviation_def left_length_def right_length_def width_def
    by (auto simp: HaveSameDirection_unfold combined_road_width_eq dest: failed
          split: sum.splits)
qed

text \<open>
  Two one-lane roads of the town walked for 100 metres each, parallel and 10 metres
  apart: the width is 3.25 metres, the bound 11.25, and the roads have the same
  direction. With bearings 110 degrees apart they have not.
\<close>

theorem HaveSameDirection_verdict_witness:
  "angularDeviation (bearing (candidate_road 0 0)) (bearing (candidate_road 1 5)) \<le> 95 \<and>
   40 < walked_length parallel_toolkit town 0 (candidate_road 0 0) 0 \<and>
   40 < walked_length parallel_toolkit town 0 (candidate_road 0 0) 1 \<and>
   pruned_polyline parallel_toolkit town 0 (candidate_road 0 0) 0 =
     Inr [(0, 40), (0, 60), (0, 80), (0, 100)] \<and>
   pruned_polyline parallel_toolkit town 0 (candidate_road 0 0) 1 =
     Inr [(1, 40), (1, 60), (1, 80), (1, 100)] \<and>
   HaveSameDirection parallel_toolkit town 0 (candidate_road 0 0) (candidate_road 1 5) =
     Inr True \<and>
   95 < angularDeviation (bearing (candidate_road 0 0)) (bearing (candidate_road 1 110)) \<and>
   HaveSameDirection parallel_toolkit town 0 (candidate_road 0 0) (candidate_road 1 110) =
     Inr False"
proof -
  have 1: "angularDeviation (bearing (candidate_road 0 0)) (bearing (candidate_road 1 5)) \<le> 95"
    by (simp add: town_defs detector_defs)
  have 2: "40 < walked_length parallel_toolkit town 0 (candidate_road 0 0)
                  (eid (candidate_road 0 0))"
    by (simp add: town_defs detector_defs notion_defs Let_def)
  have 3: "40 < walked_length parallel_toolkit town 0 (candidate_road 0 0)
                  (eid (candidate_road 1 5))"
    by (simp add: town_defs detector_defs notion_defs Let_def)
  have 4: "pruned_polyline parallel_toolkit town 0 (candidate_road 0 0)
             (eid (candidate_road 0 0)) = Inr [(0, 40), (0, 60), (0, 80), (0, 100)]"
    by (simp add: town_defs detector_defs notion_defs Let_def)
  have 5: "pruned_polyline parallel_toolkit town 0 (candidate_road 0 0)
             (eid (candidate_road 1 5)) = Inr [(1, 40), (1, 60), (1, 80), (1, 100)]"
    by (simp add: town_defs detector_defs notion_defs Let_def)
  have e: "eid (candidate_road 0 0) = 0" "eid (candidate_road 1 5) = 1"
    by (simp_all add: candidate_road_def)
  have 6: "95 < angularDeviation (bearing (candidate_road 0 0)) (bearing (candidate_road 1 110))"
    by (simp add: town_defs detector_defs)
  have "HaveSameDirection parallel_toolkit town 0 (candidate_road 0 0) (candidate_road 1 5) =
          Inr (areParallel parallel_toolkit [(0, 40), (0, 60), (0, 80), (0, 100)]
                 [(1, 40), (1, 60), (1, 80), (1, 100)] \<and>
               findClosestDistance parallel_toolkit
                 ([(0, 40), (0, 60), (0, 80), (0, 100)] !
                  (length [(0::int, 40::int), (0, 60), (0, 80), (0, 100)] div 2))
                 [(1, 40), (1, 60), (1, 80), (1, 100)] \<le>
               0.5 * real_of_int (max 1 (lane_count town (candidate_road 0 0)) +
                                  max 1 (lane_count town (candidate_road 1 5))) * 3.25 + 8)"
    using HaveSameDirection_verdict[of "candidate_road 0 0" "candidate_road 1 5"
        parallel_toolkit town 0] 1 2 3 4 5
    by blast
  then have 7: "HaveSameDirection parallel_toolkit town 0 (candidate_road 0 0)
                  (candidate_road 1 5) = Inr True"
    by (simp add: town_defs notion_defs GetEdgeData_def GetNumberOfLanes_def)
  have 8: "HaveSameDirection parallel_toolkit town 0 (candidate_road 0 0)
             (candidate_road 1 110) = Inr False"
    using HaveSameDirection_verdict[of "candidate_road 0 0" "candidate_road 1 110"
        parallel_toolkit town 0] 6
    by blast
  from 1 2 3 4 5 6 7 8 show ?thesis unfolding e by blast
qed

text \<open>
  C6: once the left walk has stopped at its corner, \<^verbatim>\<open>IsNarrowTriangle\<close> returns false
  whenever the great-circle distance from the intersection node to that corner exceeds
  80 metres; at 80 metres or less, in particular at exactly 80, this test does not
  reject and the verdict is that of the rest of the function.
\<close>

theorem IsNarrowTriangle_distance_boundary:
  assumes "left_corner t d n lhs = Inr left_accumulator"
  shows "(80 < corner_distance t d n left_accumulator \<longrightarrow>
            IsNarrowTriangle t d n lhs rhs = Inr False) \<and>
         (corner_distance t d n left_accumulator \<le> 80 \<longrightarrow>
            IsNarrowTriangle t d n lhs rhs =
              narrow_triangle_right_side t d (selector_of d lhs) n lhs rhs left_accumulator)"
  using assms
  by (simp add: IsNarrowTriangle_def narrow_triangle_with_def left_corner_def
        corner_distance_def Let_def)

text \<open>
  The fork at node 0 of the town: with the left corner exactly 80 metres away the
  narrow triangle is found; with the corner at 80.01 metres it is rejected.
\<close>

theorem IsNarrowTriangle_distance_boundary_witness:
  "left_corner town_toolkit town 0 (candidate_road 0 350) =
     Inr \<lparr>hops = 1, hop_limit = 5, via_edge_id = 0, intersection = town_connected_roads 0 0\<rparr> \<and>
   corner_distance town_toolkit town 0
     \<lparr>hops = 1, hop_limit = 5, via_edge_id = 0, intersection = town_connected_roads 0 0\<rparr> = 80 \<and>
   IsNarrowTriangle town_toolkit town 0 (candidate_road 0 350) (candidate_road 1 10) =
     Inr True \<and>
   left_corner far_corner_toolkit town 0 (candidate_road 0 350) =
     Inr \<lparr>hops = 1, hop_limit = 5, via_edge_id = 0, intersection = town_connected_roads 0 0\<rparr> \<and>
   corner_distance far_corner_toolkit town 0
     \<lparr>hops = 1, hop_limit = 5, via_edge_id = 0, intersection = town_connected_roads 0 0\<rparr>
     = 80.01 \<and>
   IsNarrowTriangle far_corner_toolkit town 0 (candidate_road 0 350) (candidate_road 1 10) =
     Inr False"
proof -
  let ?acc = "\<lparr>hops = 1, hop_limit = 5, via_edge_id = 0,
               intersection = town_connected_roads 0 0\<rparr>"
  have 1: "left_corner town_toolkit town 0 (candidate_road 0 350) = Inr ?acc"
    by (simp add: town_defs detector_defs notion_defs Let_def)
  have 2: "corner_distance town_toolkit town 0 ?acc = 80"
    by (simp add: town_defs detector_defs notion_defs)
  have 3: "narrow_triangle_right_side town_toolkit town
             (selector_of town (candidate_road 0 350)) 0 (candidate_road 0 350)
             (candidate_road 1 10) ?acc = Inr True"
    by (simp add: town_defs detector_defs Let_def)
  have 4: "IsNarrowTriangle town_toolkit town 0 (candidate_road 0 350) (candidate_road 1 10)
             = Inr True"
    using IsNarrowTriangle_distance_boundary[OF 1, of "candidate_road 1 10"] 2 3 by simp
  have 5: "left_corner far_corner_toolkit town 0 (candidate_road 0 350) = Inr ?acc"
    by (simp add: town_defs detector_defs notion_defs Let_def)
  have 6: "corner_distance far_corner_toolkit town 0 ?acc = 80.01"
    by (simp add: town_defs detector_defs notion_defs)
  have 7: "IsNarrowTriangle far_corner_toolkit town 0 (candidate_road 0 350)
             (candidate_road 1 10) = Inr False"
    using IsNarrowTriangle_distance_boundary[OF 5, of "candidate_road 1 10"] 6 by simp
  from 1 2 4 5 6 7 show ?thesis by blast
qed

text \<open>
  C7: \<^verbatim>\<open>IsLinkRoad\<close> looks at the intersection reached by skipping pass-through nodes
  along the road. It returns false when no road there has a name other than the road's
  own. Otherwise, with the differently-named road closest to straight ahead as
  continuation and the road closest to the opposite of its angle, it returns false when
  the opposite road leads to the node reported by the skipping, or when the deviation of
  the continuation from 180 degrees and that of the opposite road from 0 degrees are
  within the fuzzy-angle tolerance of each other; in every other case it returns true
  exactly when the two angles deviate by at least 160 degrees and the two edges are
  compatible with each other. The lookup of the opposite road always finds one.
\<close>

theorem IsLinkRoad_verdict:
  fixes t d n road
  defines "view \<equiv> next_intersection_along d n road"
    and "g \<equiv> node_based_graph d"
  shows "(list_all (\<lambda>r. road_name d r = road_name d road) view \<longrightarrow>
            IsLinkRoad t d n road = Inr False) \<and>
         (\<forall>next_road.
            findClosestTurn_if view (STRAIGHT_ANGLE t) (\<lambda>r. road_name d r \<noteq> road_name d road)
              = Some next_road \<longrightarrow>
            (\<exists>opp. findClosestTurn view (restrictAngleToValidRange t (angle next_road + 180))
                     = Some opp \<and>
               IsLinkRoad t d n road =
                 Inr (if GetTarget g (eid opp) =
                         nid (SkipDegreeTwoNodes (intersection_generator d) n (eid road)) \<or>
                         angularDeviation (angularDeviation (angle next_road) 180)
                           (angularDeviation (angle opp) 0) < FUZZY_ANGLE_DIFFERENCE t
                      then False
                      else 160 \<le> angularDeviation (angle next_road) (angle opp) \<and>
                           RoadDataIsCompatible (GetEdgeData g (eid next_road))
                             (GetEdgeData g (eid opp)) \<and>
                           RoadDataIsCompatible (GetEdgeData g (eid opp))
                             (GetEdgeData g (eid next_road)))))"
proof (intro conjI impI allI)
  assume "list_all (\<lambda>r. road_name d r = road_name d road) view"
  then have "findClosestTurn_if view (STRAIGHT_ANGLE t)
               (\<lambda>r. road_name d r \<noteq> road_name d road) = None"
    by (simp add: findClosestTurn_if_None_iff)
  then show "IsLinkRoad t d n road = Inr False"
    by (simp add: IsLinkRoad_unfold view_def)
next
  fix next_road
  assume found: "findClosestTurn_if view (STRAIGHT_ANGLE t)
                   (\<lambda>r. road_name d r \<noteq> road_name d road) = Some next_road"
  from opposite_found[OF found] obtain opp where
    opp: "findClosestTurn view (restrictAngleToValidRange t (angle next_road + 180)) = Some opp"
    by blast
  have "IsLinkRoad t d n road =
          Inr (if GetTarget g (eid opp) =
                  nid (SkipDegreeTwoNodes (intersection_generator d) n (eid road)) \<or>
                  angularDeviation (angularDeviation (angle next_road) 180)
                    (angularDeviation (angle opp) 0) < FUZZY_ANGLE_DIFFERENCE t
               then False
               else 160 \<le> angularDeviation (angle next_road) (angle opp) \<and>
                    RoadDataIsCompatible (GetEdgeData g (eid next_road))
                      (GetEdgeData g (eid opp)) \<and>
                    RoadDataIsCompatible (GetEdgeData g (eid opp))
                      (GetEdgeData g (eid next_road)))"
    using found opp RoadDataIsCompatible_commute[of "GetEdgeData g (eid opp)"]
    by (simp add: IsLinkRoad_unfold view_def[symmetric] g_def[symmetric]
          angularDeviation_commute[of "angle opp"])
  with opp show "\<exists>opp. findClosestTurn view
                    (restrictAngleToValidRange t (angle next_road + 180)) = Some opp \<and>
               IsLinkRoad t d n road =
                 Inr (if GetTarget g (eid opp) =
                         nid (SkipDegreeTwoNodes (intersection_generator d) n (eid road)) \<or>
                         angularDeviation (angularDeviation (angle next_road) 180)
                           (angularDeviation (angle opp) 0) < FUZZY_ANGLE_DIFFERENCE t
                      then False
                      else 160 \<le> angularDeviation (angle next_road) (angle opp) \<and>
                           RoadDataIsCompatible (GetEdgeData g (eid next_road))
                             (GetEdgeData g (eid opp)) \<and>
                           RoadDataIsCompatible (GetEdgeData g (eid opp))
                             (GetEdgeData g (eid next_road)))"
    by blast
qed

text \<open>
  In the town: every road at node 1 is called 7, so edge 0 is no link road. At node 41
  street 9 crosses, with edge 42 at 100 degrees as continuation and edge 44 at 270
  degrees opposite: 170 degrees apart and compatible, and the two deviations (80 and 90)
  differ by 10. With a tolerance of 25 degrees edge 40 is no link road, with a tolerance
  of 5 degrees it is one.
\<close>

theorem IsLinkRoad_verdict_witness:
  "list_all (\<lambda>r. road_name town r = road_name town (candidate_road 0 350))
     (next_intersection_along town 0 (candidate_road 0 350)) \<and>
   IsLinkRoad town_toolkit town 0 (candidate_road 0 350) = Inr False \<and>
   findClosestTurn_if (next_intersection_along town 40 (candidate_road 40 0))
     (STRAIGHT_ANGLE town_toolkit)
     (\<lambda>r. road_name town r \<noteq> road_name town (candidate_road 40 0)) =
     Some (view_road 42 80 100) \<and>
   IsLinkRoad town_toolkit town 40 (candidate_road 40 0) = Inr False \<and>
   findClosestTurn_if (next_intersection_along town 40 (candidate_road 40 0))
     (STRAIGHT_ANGLE sharp_toolkit)
     (\<lambda>r. road_name town r \<noteq> road_name town (candidate_road 40 0)) =
     Some (view_road 42 80 100) \<and>
   IsLinkRoad sharp_toolkit town 40 (candidate_road 40 0) = Inr True"
proof -
  have 1: "list_all (\<lambda>r. road_name town r = road_name town (candidate_road 0 350))
             (next_intersection_along town 0 (candidate_road 0 350))"
    by (simp add: town_defs notion_defs GetEdgeData_def)
  have 2: "IsLinkRoad town_toolkit town 0 (candidate_road 0 350) = Inr False"
    using IsLinkRoad_verdict[of town "candidate_road 0 350" 0 town_toolkit] 1 by blast
  have 3: "findClosestTurn_if (next_intersection_along town 40 (candidate_road 40 0))
             (STRAIGHT_ANGLE town_toolkit)
             (\<lambda>r. road_name town r \<noteq> road_name town (candidate_road 40 0)) =
           Some (view_road 42 80 100)"
    by (simp add: town_defs notion_defs GetEdgeData_def findClosestTurn_if_def
          findClosestTurn_def angularDeviation_def)
  have 5: "findClosestTurn_if (next_intersection_along town 40 (candidate_road 40 0))
             (STRAIGHT_ANGLE sharp_toolkit)
             (\<lambda>r. road_name town r \<noteq> road_name town (candidate_road 40 0)) =
           Some (view_road 42 80 100)"
    by (simp add: town_defs notion_defs GetEdgeData_def findClosestTurn_if_def
          findClosestTurn_def angularDeviation_def)
  from IsLinkRoad_verdict[of town "candidate_road 40 0" 40 town_toolkit] 3
  obtain opp where
    "findClosestTurn (next_intersection_along town 40 (candidate_road 40 0))
       (restrictAngleToValidRange town_toolkit (angle (view_road 42 80 100) + 180)) = Some opp"
    and verdict: "IsLinkRoad town_toolkit town 40 (candidate_road 40 0) =
       Inr (if GetTarget (node_based_graph town) (eid opp) =
               nid (SkipDegreeTwoNodes (intersection_generator town) 40
                      (eid (candidate_road 40 0))) \<or>
               angularDeviation (angularDeviation (angle (view_road 42 80 100)) 180)
                 (angularDeviation (angle opp) 0) < FUZZY_ANGLE_DIFFERENCE town_toolkit
            then False
            else 160 \<le> angularDeviation (angle (view_road 42 80 100)) (angle opp) \<and>
                 RoadDataIsCompatible
                   (GetEdgeData (node_based_graph town) (eid (view_road 42 80 100)))
                   (GetEdgeData (node_based_graph town) (eid opp)) \<and>
                 RoadDataIsCompatible (GetEdgeData (node_based_graph town) (eid opp))
                   (GetEdgeData (node_based_graph town) (eid (view_road 42 80 100))))"
    by blast
  moreover have "findClosestTurn (next_intersection_along town 40 (candidate_road 40 0))
       (restrictAngleToValidRange town_toolkit (angle (view_road 42 80 100) + 180)) =
     Some (view_road 44 270 270)"
    by (simp add: town_defs notion_defs findClosestTurn_def angularDeviation_def)
  ultimately have "opp = view_road 44 270 270" by simp
  with verdict have 4: "IsLinkRoad town_toolkit town 40 (candidate_road 40 0) = Inr False"
    by (simp add: town_defs angularDeviation_def GetEdgeData_def GetTarget_def
          RoadDataIsCompatible_def)
  from IsLinkRoad_verdict[of town "candidate_road 40 0" 40 sharp_toolkit] 5
  obtain opp' where
    "findClosestTurn (next_intersection_along town 40 (candidate_road 40 0))
       (restrictAngleToValidRange sharp_toolkit (angle (view_road 42 80 100) + 180)) = Some opp'"
    and verdict': "IsLinkRoad sharp_toolkit town 40 (candidate_road 40 0) =
       Inr (if GetTarget (node_based_graph town) (eid opp') =
               nid (SkipDegreeTwoNodes (intersection_generator town) 40
                      (eid (candidate_road 40 0))) \<or>
               angularDeviation (angularDeviation (angle (view_road 42 80 100)) 180)
                 (angularDeviation (angle opp') 0) < FUZZY_ANGLE_DIFFERENCE sharp_toolkit
            then False
            else 160 \<le> angularDeviation (angle (view_road 42 80 100)) (angle opp') \<and>
                 RoadDataIsCompatible
                   (GetEdgeData (node_based_graph town) (eid (view_road 42 80 100)))
                   (GetEdgeData (node_based_graph town) (eid opp')) \<and>
                 RoadDataIsCompatible (GetEdgeData (node_based_graph town) (eid opp'))
                   (GetEdgeData (node_based_graph town) (eid (view_road 42 80 100))))"
    by blast
  moreover have "findClosestTurn (next_intersection_along town 40 (candidate_road 40 0))
       (restrictAngleToValidRange sharp_toolkit (angle (view_road 42 80 100) + 180)) =
     Some (view_road 44 270 270)"
    by (simp add: town_defs notion_defs findClosestTurn_def angularDeviation_def)
  ultimately have "opp' = view_road 44 270 270" by simp
  with verdict' have 6: "IsLinkRoad sharp_toolkit town 40 (candidate_road 40 0) = Inr True"
    by (simp add: town_defs angularDeviation_def GetEdgeData_def GetTarget_def
          RoadDataIsCompatible_def)
  from 1 2 3 4 5 6 show ?thesis by blast
qed

text \<open>
  C8: two edge attribute records are compatible exactly when their reversed flags differ,
  their travel modes are equal, their name identifiers are equal and their road
  classifications are equal.
\<close>

theorem RoadDataIsCompatible_iff:
  "RoadDataIsCompatible l r \<longleftrightarrow>
     reversed l \<noteq> reversed r \<and> travel_mode l = travel_mode r \<and>
     name_id l = name_id r \<and> road_classification l = road_classification r"
  unfolding RoadDataIsCompatible_def by simp

text \<open>
  In the town edges 0 and 1 are the two directions of road 7; edges 0 and 2 point the
  same way, and edges 43 and 44 carry different names.
\<close>

theorem RoadDataIsCompatible_iff_witness:
  "RoadDataIsCompatible (town_edge_data 0) (town_edge_data 1) \<and>
   \<not> RoadDataIsCompatible (town_edge_data 0) (town_edge_data 2) \<and>
   \<not> RoadDataIsCompatible (town_edge_data 43) (town_edge_data 44)"
  by (simp add: RoadDataIsCompatible_iff town_edge_data_def)

text \<open>
  C9: \<^verbatim>\<open>CanMergeRoad\<close> returns false, without consulting \<^verbatim>\<open>ConnectAgain\<close>, \<^verbatim>\<open>IsLinkRoad\<close>,
  \<^verbatim>\<open>IsNarrowTriangle\<close> or \<^verbatim>\<open>HaveSameDirection\<close>, unless its first five tests pass; when
  they pass, the two edges carry the same name identifier, so the selection strategy
  that \<^verbatim>\<open>IsNarrowTriangle\<close> builds from the left road's name is the one it would build
  from the right road's name, and walking both sides with the latter gives the same
  result.
\<close>

theorem CanMergeRoad_names_agree:
  fixes t d n lhs rhs
  defines "g \<equiv> node_based_graph d"
  defines "reached \<equiv>
      angularDeviation (bearing lhs) (bearing rhs) \<le> 95 \<and>
      \<not> roundabout (GetEdgeData g (eid lhs)) \<and> \<not> roundabout (GetEdgeData g (eid rhs)) \<and>
      RoadDataIsCompatible (GetEdgeData g (eid lhs)) (GetEdgeData g (eid rhs)) \<and>
      GetTarget g (eid lhs) \<noteq> n \<and>
      \<not> IsTrafficLoop d n lhs \<and> \<not> IsTrafficLoop d n rhs"
  shows "(\<not> reached \<longrightarrow> CanMergeRoad t d n lhs rhs = Inr False) \<and>
         (reached \<longrightarrow>
            name_id (GetEdgeData g (eid lhs)) = name_id (GetEdgeData g (eid rhs)) \<and>
            selector_of d lhs =
              \<lparr>desired_name_id = name_id (GetEdgeData g (eid rhs)),
               initial_bearing = bearing lhs, requires_entry = False\<rparr> \<and>
            IsNarrowTriangle t d n lhs rhs =
              narrow_triangle_with t d
                \<lparr>desired_name_id = name_id (GetEdgeData g (eid rhs)),
                 initial_bearing = bearing lhs, requires_entry = False\<rparr> n lhs rhs)"
proof -
  have names: "name_id l = name_id r" if "RoadDataIsCompatible l r" for l r
    using that by (auto simp: RoadDataIsCompatible_def split: if_splits)
  show ?thesis
    unfolding reached_def g_def
    by (auto simp: CanMergeRoad_def Let_def road_target_def selector_of_def
          IsNarrowTriangle_def dest: names)
qed

text \<open>
  At the fork of node 0 the five tests pass and both edges are called 7; with the
  bearings 110 degrees apart the verdict is false at the first test.
\<close>

theorem CanMergeRoad_names_agree_witness:
  "angularDeviation (bearing (candidate_road 0 350)) (bearing (candidate_road 1 10)) \<le> 95 \<and>
   \<not> roundabout (GetEdgeData (node_based_graph town) (eid (candidate_road 0 350))) \<and>
   \<not> roundabout (GetEdgeData (node_based_graph town) (eid (candidate_road 1 10))) \<and>
   RoadDataIsCompatible (GetEdgeData (node_based_graph town) (eid (candidate_road 0 350)))
     (GetEdgeData (node_based_graph town) (eid (candidate_road 1 10))) \<and>
   GetTarget (node_based_graph town) (eid (candidate_road 0 350)) \<noteq> 0 \<and>
   \<not> IsTrafficLoop town 0 (candidate_road 0 350) \<and>
   \<not> IsTrafficLoop town 0 (candidate_road 1 10) \<and>
   name_id (GetEdgeData (node_based_graph town) (eid (candidate_road 0 350))) =
     name_id (GetEdgeData (node_based_graph town) (eid (candidate_road 1 10))) \<and>
   IsNarrowTriangle town_toolkit town 0 (candidate_road 0 350) (candidate_road 1 10) =
     narrow_triangle_with town_toolkit town
       \<lparr>desired_name_id =
          name_id (GetEdgeData (node_based_graph town) (eid (candidate_road 1 10))),
        initial_bearing = bearing (candidate_road 0 350), requires_entry = False\<rparr>
       0 (candidate_road 0 350) (candidate_road 1 10) \<and>
   \<not> angularDeviation (bearing (candidate_road 0 0)) (bearing (candidate_road 1 110)) \<le> 95 \<and>
   CanMergeRoad town_toolkit town 0 (candidate_road 0 0) (candidate_road 1 110) = Inr False"
proof -
  have 1: "angularDeviation (bearing (candidate_road 0 350)) (bearing (candidate_road 1 10))
             \<le> 95 \<and>
   \<not> roundabout (GetEdgeData (node_based_graph town) (eid (candidate_road 0 350))) \<and>
   \<not> roundabout (GetEdgeData (node_based_graph town) (eid (candidate_road 1 10))) \<and>
   RoadDataIsCompatible (GetEdgeData (node_based_graph town) (eid (candidate_road 0 350)))
     (GetEdgeData (node_based_graph town) (eid (candidate_road 1 10))) \<and>
   GetTarget (node_based_graph town) (eid (candidate_road 0 350)) \<noteq> 0 \<and>
   \<not> IsTrafficLoop town 0 (candidate_road 0 350) \<and>
   \<not> IsTrafficLoop town 0 (candidate_road 1 10)"
    by (simp add: town_defs detector_defs)
  have 2: "\<not> angularDeviation (bearing (candidate_road 0 0)) (bearing (candidate_road 1 110))
               \<le> 95"
    by (simp add: town_defs detector_defs)
  from CanMergeRoad_names_agree[of "candidate_road 0 350" "candidate_road 1 10" town 0
         town_toolkit]
       CanMergeRoad_names_agree[of "candidate_road 0 0" "candidate_road 1 110" town 0
         town_toolkit] 1 2
  show ?thesis by blast
qed

text \<open>
  C10: \<^verbatim>\<open>IsNarrowTriangle\<close> reads the results of its closest-turn lookups (at 90, 180 and
  270 degrees) without testing them. When every walk with its selection strategy leaves
  a non-empty intersection in the accumulator, each lookup finds a road, the asserted
  non-emptiness holds, and the function returns a verdict.
\<close>

theorem IsNarrowTriangle_lookups_succeed:
  assumes "\<forall>node edge acc.
             intersection (TraverseRoad t node edge acc (selector_of d lhs)) \<noteq> []"
  shows "\<exists>verdict. IsNarrowTriangle t d n lhs rhs = Inr verdict"
proof -
  obtain left where left: "walk_to_corner t d (selector_of d lhs) n (eid lhs) 90 = Inr left"
    "intersection left \<noteq> []"
    using walk_to_corner_returns[OF assms] by blast
  obtain right where right: "walk_to_corner t d (selector_of d lhs) n (eid rhs) 270 = Inr right"
    "intersection right \<noteq> []"
    using walk_to_corner_returns[OF assms] by blast
  obtain connector where "findClosestTurn (intersection left) 90 = Some connector"
    using left(2) findClosestTurn_None_iff by (metis not_Some_eq)
  with left right show ?thesis
    by (auto simp: IsNarrowTriangle_def narrow_triangle_with_def
          narrow_triangle_right_side_def Let_def)
qed

text \<open>
  Every intersection of the town holds at least the road back, so every walk there ends
  with a non-empty intersection, and the test at the fork of node 0 returns.
\<close>

theorem IsNarrowTriangle_lookups_succeed_witness:
  "(\<forall>node edge acc.
      intersection (TraverseRoad town_toolkit node edge acc
                      (selector_of town (candidate_road 1 10))) \<noteq> []) \<and>
   (\<exists>verdict.
      IsNarrowTriangle town_toolkit town 0 (candidate_road 1 10) (candidate_road 0 350) =
        Inr verdict)"
proof -
  have 1: "\<forall>node edge acc.
      intersection (TraverseRoad town_toolkit node edge acc
                      (selector_of town (candidate_road 1 10))) \<noteq> []"
    by (simp add: town_toolkit_def town_connected_roads_def view_road_def
          split: option.splits)
  from IsNarrowTriangle_lookups_succeed[OF 1] 1 show ?thesis by blast
qed

end
